theory Spec2Isabelle
  imports Complex_Main
begin

section \<open>Python, NumPy and PyTorch primitives\<close>

text \<open>
  Exceptions of the two source files that the modelled code paths can raise.
\<close>

datatype error =
  ZeroDivisionError | ValueError | NameError | AttributeError | RuntimeError
  | NotImplementedError | UnpicklingError

text \<open>
  Floating-point scalars as NumPy and PyTorch compute them, idealised: a finite value is a
  real number (no rounding, no signed zero), and the three special values are kept, since
  array and tensor division by zero yields them instead of raising.
\<close>

datatype npfloat = Fin real | PInf | NInf | NaN

fun fl_add :: "npfloat \<Rightarrow> npfloat \<Rightarrow> npfloat" where
  "fl_add NaN _ = NaN"
| "fl_add _ NaN = NaN"
| "fl_add (Fin a) (Fin b) = Fin (a + b)"
| "fl_add PInf NInf = NaN"
| "fl_add NInf PInf = NaN"
| "fl_add PInf _ = PInf"
| "fl_add _ PInf = PInf"
| "fl_add NInf _ = NInf"
| "fl_add _ NInf = NInf"

fun fl_div :: "npfloat \<Rightarrow> npfloat \<Rightarrow> npfloat" where
  "fl_div NaN _ = NaN"
| "fl_div _ NaN = NaN"
| "fl_div (Fin a) (Fin b) =
     (if b = 0 then (if a = 0 then NaN else if 0 < a then PInf else NInf) else Fin (a / b))"
| "fl_div (Fin a) _ = Fin 0"
| "fl_div PInf (Fin b) = (if b < 0 then NInf else PInf)"
| "fl_div NInf (Fin b) = (if b < 0 then PInf else NInf)"
| "fl_div _ _ = NaN"

fun fl_le :: "npfloat \<Rightarrow> npfloat \<Rightarrow> bool" where
  "fl_le NaN _ = False"
| "fl_le _ NaN = False"
| "fl_le (Fin a) (Fin b) = (a \<le> b)"
| "fl_le NInf _ = True"
| "fl_le _ PInf = True"
| "fl_le _ _ = False"

text \<open>
  \<^verbatim>\<open>np.argmax\<close> along one axis: the scan keeps the first maximum, replaces it when an
  entry is not \<open>\<le>\<close> the running maximum, and stops at the first NaN. An empty axis raises
  \<^verbatim>\<open>ValueError\<close>.
\<close>

fun argmax_scan :: "npfloat \<Rightarrow> nat \<Rightarrow> nat \<Rightarrow> npfloat list \<Rightarrow> nat" where
  "argmax_scan mp mi i [] = mi"
| "argmax_scan mp mi i (x # xs) =
     (if mp = NaN then mi
      else if \<not> fl_le x mp then argmax_scan x i (Suc i) xs
      else argmax_scan mp mi (Suc i) xs)"

definition np_argmax :: "npfloat list \<Rightarrow> error + nat" where
  "np_argmax xs = (case xs of [] \<Rightarrow> Inl ValueError | x # rest \<Rightarrow> Inr (argmax_scan x 0 1 rest))"

text \<open>
  \<^verbatim>\<open>math.ceil(a / b)\<close> on Python integers: true division, then the ceiling; a zero
  divisor raises. The quotient is taken exactly (the float quotient of two integers below
  \<open>2^53\<close> has the same ceiling).
\<close>

definition py_ceil_div :: "int \<Rightarrow> int \<Rightarrow> error + int" where
  "py_ceil_div a b =
     (if b = 0 then Inl ZeroDivisionError else Inr \<lceil>real_of_int a / real_of_int b\<rceil>)"

text \<open>\<^verbatim>\<open>range(0, n)\<close>: empty when \<open>n \<le> 0\<close>.\<close>

definition py_range :: "int \<Rightarrow> int list" where
  "py_range n = [0..n - 1]"

text \<open>
  A basic slice \<^verbatim>\<open>a:b\<close> on an axis of \<open>n\<close> entries: a negative bound counts from the
  end, and both bounds are clipped to the axis.
\<close>

definition slice_bound :: "int \<Rightarrow> int \<Rightarrow> int" where
  "slice_bound n i = (if i < 0 then max (i + n) 0 else min i n)"

definition in_slice :: "int \<Rightarrow> int \<Rightarrow> int \<Rightarrow> int \<Rightarrow> bool" where
  "in_slice n a b i \<longleftrightarrow> slice_bound n a \<le> i \<and> i < slice_bound n b"

definition slice_len :: "int \<Rightarrow> int \<Rightarrow> int \<Rightarrow> int" where
  "slice_len n a b = max 0 (slice_bound n b - slice_bound n a)"

text \<open>
  A three-dimensional array: its shape and its entries (read only inside the shape).
\<close>

type_synonym idx3 = "int \<times> int \<times> int"

record 'a ndarray3 =
  shape :: idx3
  elems :: "idx3 \<Rightarrow> 'a"

text \<open>\<^verbatim>\<open>np.pad(image, [(wl, wr), (hl, hr), (dl, dr)], mode='constant', constant_values=0)\<close>\<close>

definition np_pad :: "real ndarray3 \<Rightarrow> int \<times> int \<Rightarrow> int \<times> int \<Rightarrow> int \<times> int \<Rightarrow> real ndarray3" where
  "np_pad a wp hp dp =
     (case shape a of (w, h, d) \<Rightarrow>
        \<lparr>shape = (fst wp + w + snd wp, fst hp + h + snd hp, fst dp + d + snd dp),
         elems = (\<lambda>(i, j, k).
           if fst wp \<le> i \<and> i < fst wp + w \<and> fst hp \<le> j \<and> j < fst hp + h
              \<and> fst dp \<le> k \<and> k < fst dp + d
           then elems a (i - fst wp, j - fst hp, k - fst dp) else 0)\<rparr>)"

text \<open>\<^verbatim>\<open>a[x0:x1, y0:y1, z0:z1]\<close>\<close>

definition slice3 :: "'a ndarray3 \<Rightarrow> int \<times> int \<Rightarrow> int \<times> int \<Rightarrow> int \<times> int \<Rightarrow> 'a ndarray3" where
  "slice3 a xr yr zr =
     (case shape a of (w, h, d) \<Rightarrow>
        \<lparr>shape = (slice_len w (fst xr) (snd xr), slice_len h (fst yr) (snd yr),
                  slice_len d (fst zr) (snd zr)),
         elems = (\<lambda>(i, j, k).
           elems a (slice_bound w (fst xr) + i, slice_bound h (fst yr) + j,
                    slice_bound d (fst zr) + k))\<rparr>)"

section \<open>Sliding-window inference: \<^verbatim>\<open>test_single_case\<close> of predict.py\<close>

text \<open>
  Lines 76-93, one axis: the padding flag, and the left and right pad widths.
\<close>

definition pad_widths :: "int \<Rightarrow> int \<Rightarrow> bool \<times> int \<times> int" where
  "pad_widths w p =
     (let w_pad = (if w < p then p - w else 0)
      in (w < p, w_pad div 2, w_pad - w_pad div 2))"

text \<open>
  Lines 99-101 and 106-111, one axis: the number of steps \<^verbatim>\<open>math.ceil((n - p) / stride) + 1\<close>
  and the offset \<^verbatim>\<open>min(stride * x, n - p)\<close> of each step \<open>x\<close>.
\<close>

definition axis_offsets :: "int \<Rightarrow> int \<Rightarrow> int \<Rightarrow> error + int list" where
  "axis_offsets stride n p =
     (case py_ceil_div (n - p) stride of
        Inl e \<Rightarrow> Inl e
      | Inr c \<Rightarrow> Inr (map (\<lambda>x. min (stride * x) (n - p)) (py_range (c + 1))))"

text \<open>
  The three nested loops of lines 106-111 in their order (first axis outermost): the first
  axis is stepped with \<open>stride_z\<close>, the second and third with \<open>stride_xy\<close>.
\<close>

definition patch_offsets :: "idx3 \<Rightarrow> idx3 \<Rightarrow> int \<Rightarrow> int \<Rightarrow> error + idx3 list" where
  "patch_offsets shp patch_size stride_xy stride_z =
     (case (shp, patch_size) of ((ww, hh, dd), (p0, p1, p2)) \<Rightarrow>
        (case axis_offsets stride_z ww p0 of Inl e \<Rightarrow> Inl e | Inr xoffs \<Rightarrow>
        (case axis_offsets stride_xy hh p1 of Inl e \<Rightarrow> Inl e | Inr yoffs \<Rightarrow>
        (case axis_offsets stride_xy dd p2 of Inl e \<Rightarrow> Inl e | Inr zoffs \<Rightarrow>
           Inr [(xs, ys, zs). xs \<leftarrow> xoffs, ys \<leftarrow> yoffs, zs \<leftarrow> zoffs]))))"

text \<open>
  The two accumulators of lines 103-104: \<open>score_map\<close> (class, voxel) and the visit count
  \<open>cnt\<close> (a float array in the source that only ever holds counts).
\<close>

record score_acc =
  score_map :: "nat \<Rightarrow> idx3 \<Rightarrow> real"
  cnt :: "idx3 \<Rightarrow> nat"

definition in_patch :: "idx3 \<Rightarrow> idx3 \<Rightarrow> idx3 \<Rightarrow> idx3 \<Rightarrow> bool" where
  "in_patch shp patch_size off v =
     (case (shp, patch_size, off, v) of ((ww, hh, dd), (p0, p1, p2), (xs, ys, zs), (i, j, k)) \<Rightarrow>
        in_slice ww xs (xs + p0) i \<and> in_slice hh ys (ys + p1) j \<and> in_slice dd zs (zs + p2) k)"

definition patch_origin :: "idx3 \<Rightarrow> idx3 \<Rightarrow> idx3" where
  "patch_origin shp off =
     (case (shp, off) of ((ww, hh, dd), (xs, ys, zs)) \<Rightarrow>
        (slice_bound ww xs, slice_bound hh ys, slice_bound dd zs))"

definition rel_idx :: "idx3 \<Rightarrow> idx3 \<Rightarrow> idx3" where
  "rel_idx v org = (case (v, org) of ((i, j, k), (a, b, c)) \<Rightarrow> (i - a, j - b, k - c))"

text \<open>
  Lines 112-136, one patch. The forward pass, the choice of the output head by \<open>jisoo\<close>
  and the softmax are the network's: \<open>net jisoo patch c v\<close> is the entry of class \<open>c\<close> at
  voxel \<open>v\<close> of the softmax output \<open>y\<close> for that patch, of the patch's spatial shape.
\<close>

definition accumulate ::
  "(int \<Rightarrow> real ndarray3 \<Rightarrow> nat \<Rightarrow> idx3 \<Rightarrow> real) \<Rightarrow> int \<Rightarrow> real ndarray3 \<Rightarrow> idx3 \<Rightarrow>
   score_acc \<Rightarrow> idx3 \<Rightarrow> score_acc" where
  "accumulate net jisoo img patch_size acc off =
     (case (patch_size, off) of ((p0, p1, p2), (xs, ys, zs)) \<Rightarrow>
        (let test_patch = slice3 img (xs, xs + p0) (ys, ys + p1) (zs, zs + p2);
             y = net jisoo test_patch;
             org = patch_origin (shape img) off
         in \<lparr>score_map = (\<lambda>c v. if in_patch (shape img) patch_size off v
                                  then score_map acc c v + y c (rel_idx v org)
                                  else score_map acc c v),
              cnt = (\<lambda>v. if in_patch (shape img) patch_size off v
                          then cnt acc v + 1 else cnt acc v)\<rparr>))"

definition zero_acc :: score_acc where
  "zero_acc = \<lparr>score_map = (\<lambda>c v. 0), cnt = (\<lambda>v. 0)\<rparr>"

text \<open>
  Lines 74-97: the padded image and the pad bookkeeping. The source's variable \<open>image\<close> is
  written \<open>img\<close> here, and \<open>img_p\<close> once line 95 has reassigned it.
\<close>

record padding =
  add_pad :: bool
  wl_pad :: int
  hl_pad :: int
  dl_pad :: int
  padded :: "real ndarray3"

definition pad_image :: "real ndarray3 \<Rightarrow> idx3 \<Rightarrow> padding" where
  "pad_image img patch_size =
     (case (shape img, patch_size) of ((w, h, d), (p0, p1, p2)) \<Rightarrow>
        (case (pad_widths w p0, pad_widths h p1, pad_widths d p2) of
           ((aw, wl, wr), (ah, hl, hr), (ad, dl, dr)) \<Rightarrow>
             \<lparr>add_pad = (aw \<or> ah \<or> ad), wl_pad = wl, hl_pad = hl, dl_pad = dl,
              padded = (if aw \<or> ah \<or> ad then np_pad img (wl, wr) (hl, hr) (dl, dr)
                        else img)\<rparr>))"

text \<open>
  Lines 99-136: the accumulators after every patch has been visited. A zero stride raises
  at line 99-101, before the first patch.
\<close>

definition run_patches ::
  "(int \<Rightarrow> real ndarray3 \<Rightarrow> nat \<Rightarrow> idx3 \<Rightarrow> real) \<Rightarrow> int \<Rightarrow> real ndarray3 \<Rightarrow> int \<Rightarrow> int \<Rightarrow> idx3 \<Rightarrow>
   error + score_acc" where
  "run_patches net jisoo img stride_xy stride_z patch_size =
     (case patch_offsets (shape img) patch_size stride_xy stride_z of
        Inl e \<Rightarrow> Inl e
      | Inr offs \<Rightarrow> Inr (foldl (accumulate net jisoo img patch_size) zero_acc offs))"

text \<open>
  The visit count of a voxel of the padded volume, as \<^verbatim>\<open>test_single_case\<close> holds it
  at line 137.
\<close>

definition visit_count ::
  "(int \<Rightarrow> real ndarray3 \<Rightarrow> nat \<Rightarrow> idx3 \<Rightarrow> real) \<Rightarrow> int \<Rightarrow> real ndarray3 \<Rightarrow> int \<Rightarrow> int \<Rightarrow> idx3 \<Rightarrow>
   idx3 \<Rightarrow> error + nat" where
  "visit_count net jisoo img stride_xy stride_z patch_size v =
     (case run_patches net jisoo (padded (pad_image img patch_size)) stride_xy stride_z patch_size of
        Inl e \<Rightarrow> Inl e
      | Inr acc \<Rightarrow> Inr (cnt acc v))"

text \<open>Line 137: \<^verbatim>\<open>score_map / np.expand_dims(cnt, axis=0)\<close>, an array division.\<close>

definition normalize :: "score_acc \<Rightarrow> nat \<Rightarrow> idx3 \<Rightarrow> npfloat" where
  "normalize acc c v = fl_div (Fin (score_map acc c v)) (Fin (real (cnt acc v)))"

text \<open>
  Line 138: \<^verbatim>\<open>np.argmax(score_map, axis=0)\<close>. With no class the class axis is empty and
  the call raises for the whole array.
\<close>

definition argmax_axis0 :: "nat \<Rightarrow> (nat \<Rightarrow> idx3 \<Rightarrow> npfloat) \<Rightarrow> error + (idx3 \<Rightarrow> nat)" where
  "argmax_axis0 num_classes sm =
     (if num_classes = 0 then Inl ValueError
      else Inr (\<lambda>v. case np_argmax (map (\<lambda>c. sm c v) [0..<num_classes]) of
                        Inl e \<Rightarrow> 0 | Inr l \<Rightarrow> l))"

record scores4 =
  num_cls :: nat
  sshape :: idx3
  selems :: "nat \<Rightarrow> idx3 \<Rightarrow> npfloat"

text \<open>\<^verbatim>\<open>s[:, x0:x1, y0:y1, z0:z1]\<close>\<close>

definition slice4 :: "scores4 \<Rightarrow> int \<times> int \<Rightarrow> int \<times> int \<Rightarrow> int \<times> int \<Rightarrow> scores4" where
  "slice4 s xr yr zr =
     (case sshape s of (w, h, d) \<Rightarrow>
        \<lparr>num_cls = num_cls s,
         sshape = (slice_len w (fst xr) (snd xr), slice_len h (fst yr) (snd yr),
                   slice_len d (fst zr) (snd zr)),
         selems = (\<lambda>c (i, j, k).
           selems s c (slice_bound w (fst xr) + i, slice_bound h (fst yr) + j,
                       slice_bound d (fst zr) + k))\<rparr>)"

text \<open>
  \<^verbatim>\<open>test_single_case(net, jisoo, label, image, stride_xy, stride_z, patch_size, num_classes)\<close>;
  \<open>label\<close> and \<open>pbar\<close> are not read by the body.
\<close>

definition test_single_case ::
  "(int \<Rightarrow> real ndarray3 \<Rightarrow> nat \<Rightarrow> idx3 \<Rightarrow> real) \<Rightarrow> int \<Rightarrow> real ndarray3 \<Rightarrow> int \<Rightarrow> int \<Rightarrow> idx3 \<Rightarrow> nat \<Rightarrow>
   error + (nat ndarray3 \<times> scores4)" where
  "test_single_case net jisoo img stride_xy stride_z patch_size num_classes =
     (case shape img of (w, h, d) \<Rightarrow>
        (let pd = pad_image img patch_size;
             img_p = padded pd
         in case run_patches net jisoo img_p stride_xy stride_z patch_size of
              Inl e \<Rightarrow> Inl e
            | Inr acc \<Rightarrow>
               (let sm = normalize acc in
                case argmax_axis0 num_classes sm of
                  Inl e \<Rightarrow> Inl e
                | Inr lm \<Rightarrow>
                   (let label_map = \<lparr>shape = shape img_p, elems = lm\<rparr>;
                        score = \<lparr>num_cls = num_classes, sshape = shape img_p, selems = sm\<rparr>
                    in if add_pad pd
                       then Inr (slice3 label_map (wl_pad pd, wl_pad pd + w)
                                   (hl_pad pd, hl_pad pd + h) (dl_pad pd, dl_pad pd + d),
                                 slice4 score (wl_pad pd, wl_pad pd + w)
                                   (hl_pad pd, hl_pad pd + h) (dl_pad pd, dl_pad pd + d))
                       else Inr (label_map, score)))))"

section \<open>Mean-teacher training: \<^verbatim>\<open>main\<close> of train_semi_3Dmt_dist.py\<close>

text \<open>
  The options the modelled lines read: \<^verbatim>\<open>args.consistency\<close>, \<^verbatim>\<open>args.consistency_rampup\<close>,
  \<^verbatim>\<open>cfg['lr']\<close> and \<^verbatim>\<open>cfg['conf_thresh']\<close>.
\<close>

record cli_args =
  consistency :: real
  consistency_rampup :: real

record config =
  cfg_lr :: real
  conf_thresh :: real

text \<open>\<^verbatim>\<open>np.clip(x, a_min, a_max)\<close> is \<^verbatim>\<open>minimum(maximum(x, a_min), a_max)\<close>.\<close>

definition np_clip :: "real \<Rightarrow> real \<Rightarrow> real \<Rightarrow> real" where
  "np_clip x a_min a_max = min (max x a_min) a_max"

text \<open>Lines 43-50.\<close>

definition sigmoid_rampup :: "real \<Rightarrow> real \<Rightarrow> real" where
  "sigmoid_rampup current rampup_length =
     (if rampup_length = 0 then 1
      else (let clipped = np_clip current 0 rampup_length;
                phase = 1 - clipped / rampup_length
            in exp (- 5 * phase * phase)))"

text \<open>Lines 57-59.\<close>

definition get_current_consistency_weight :: "cli_args \<Rightarrow> real \<Rightarrow> real" where
  "get_current_consistency_weight args epoch =
     consistency args * sigmoid_rampup epoch (consistency_rampup args)"

text \<open>
  The networks and the loss modules are PyTorch's: the student \<open>model\<close>, the teacher
  \<open>model_ema\<close>, \<^verbatim>\<open>softmax(dim=1).max(dim=1)[0]\<close>, \<^verbatim>\<open>argmax(dim=1)\<close> and the
  unreduced cross-entropy \<open>criterion_u\<close>. A tensor is the list of its entries; \<open>'l\<close> is the
  type of a batch of logits.
\<close>

record 'l torch_fns =
  model :: "real list \<Rightarrow> 'l"
  model_ema :: "real list \<Rightarrow> 'l"
  softmax_max :: "'l \<Rightarrow> real list"
  argmax_dim1 :: "'l \<Rightarrow> int list"
  criterion_u :: "'l \<Rightarrow> int list \<Rightarrow> real list"

text \<open>
  Lines 170-173 bind the image tensors of one iteration to the names \<open>img_x\<close>, \<open>img_u_w\<close>
  and \<open>img_u_s\<close>; neither \<^verbatim>\<open>main\<close> nor the module binds any other name to an image.
  Reading a name that is not bound raises \<^verbatim>\<open>NameError\<close>.
\<close>

definition image_scope :: "real list \<Rightarrow> real list \<Rightarrow> real list \<Rightarrow> (string \<rightharpoonup> real list)" where
  "image_scope x u_w u_s = [''img_x'' \<mapsto> x, ''img_u_w'' \<mapsto> u_w, ''img_u_s'' \<mapsto> u_s]"

definition forward :: "(real list \<Rightarrow> 'l) \<Rightarrow> (string \<rightharpoonup> real list) \<Rightarrow> string \<Rightarrow> error + 'l" where
  "forward net scope name = (case scope name of None \<Rightarrow> Inl NameError | Some t \<Rightarrow> Inr (net t))"

text \<open>
  Lines 185-186: the per-voxel loss is multiplied by the gate
  \<^verbatim>\<open>(conf_u_w >= cfg['conf_thresh']) & (ignore_mask != 255)\<close>, summed, and divided by
  \<^verbatim>\<open>(ignore_mask != 255).sum().item()\<close>: a tensor divided by a number.
\<close>

definition masked_unsup_loss :: "real \<Rightarrow> real list \<Rightarrow> real list \<Rightarrow> int list \<Rightarrow> npfloat" where
  "masked_unsup_loss thresh loss_u_s conf_u_w ignore_mask =
     (let gate = map2 (\<lambda>c g. thresh \<le> c \<and> g \<noteq> 255) conf_u_w ignore_mask;
          gated = map2 (\<lambda>l b. l * (if b then 1 else 0)) loss_u_s gate
      in fl_div (Fin (sum_list gated))
                (Fin (real (length (filter (\<lambda>g. g \<noteq> 255) ignore_mask)))))"

text \<open>Lines 175-186: the unsupervised loss of one iteration.\<close>

definition unsupervised_loss ::
  "'l torch_fns \<Rightarrow> config \<Rightarrow> (string \<rightharpoonup> real list) \<Rightarrow> int list \<Rightarrow> error + npfloat" where
  "unsupervised_loss fns cfg scope ignore_mask =
     (case forward (model_ema fns) scope ''img_u_w'' of Inl e \<Rightarrow> Inl e | Inr pred_u_w \<Rightarrow>
        (let conf_u_w = softmax_max fns pred_u_w;
             mask_u_w = argmax_dim1 fns pred_u_w
         in case forward (model fns) scope ''img_x'' of Inl e \<Rightarrow> Inl e | Inr pred_x \<Rightarrow>
           (case forward (model fns) scope ''img_u_s1'' of Inl e \<Rightarrow> Inl e | Inr pred_u_s \<Rightarrow>
              Inr (masked_unsup_loss (conf_thresh cfg) (criterion_u fns pred_u_s mask_u_w)
                     conf_u_w ignore_mask))))"

text \<open>Line 188: the loss on which \<^verbatim>\<open>backward()\<close> is called.\<close>

definition combined_loss :: "npfloat \<Rightarrow> npfloat \<Rightarrow> npfloat" where
  "combined_loss loss_x loss_u_s = fl_div (fl_add loss_x loss_u_s) (Fin 2)"

text \<open>
  A buffer entry keeps its dtype: batch-norm running statistics are floats, the counter
  \<^verbatim>\<open>num_batches_tracked\<close> is an int64. Trainable parameters are floats.
\<close>

datatype buffer = FloatBuf real | LongBuf int

fun buf_real :: "buffer \<Rightarrow> real" where
  "buf_real (FloatBuf x) = x"
| "buf_real (LongBuf n) = real_of_int n"

text \<open>
  \<^verbatim>\<open>dst.copy_(src)\<close> converts to the dtype of \<open>dst\<close>; a float written into an int64
  tensor is truncated towards zero.
\<close>

definition trunc_int :: "real \<Rightarrow> int" where
  "trunc_int x = (if 0 \<le> x then \<lfloor>x\<rfloor> else \<lceil>x\<rceil>)"

fun copy_into :: "buffer \<Rightarrow> real \<Rightarrow> buffer" where
  "copy_into (FloatBuf old) x = FloatBuf x"
| "copy_into (LongBuf old) x = LongBuf (trunc_int x)"

text \<open>
  The training state: both models' parameters and buffers, the optimizer (its learning
  rate and its moment estimates), the loop variables of lines 129-132, and the scalars
  written to the summary writer (tag, scalar, step).
\<close>

record train_state =
  student_params :: "real list"
  student_buffers :: "buffer list"
  teacher_params :: "real list"
  teacher_buffers :: "buffer list"
  opt_lr :: real
  opt_moments :: "real list"
  cur_epoch :: int
  iter_num :: int
  pre_best_dice1 :: real
  pre_best_dice2 :: real
  best_epoch_1 :: int
  best_epoch_2 :: int
  scalars :: "(string \<times> npfloat \<times> int) list"

text \<open>
  How a run of the modelled lines ends: it falls through with the state it reached, or an
  exception leaves it, with the state reached when it was raised.
\<close>

datatype 's outcome = Done 's | Raised error 's

fun exit_state :: "'s outcome \<Rightarrow> 's" where
  "exit_state (Done s) = s"
| "exit_state (Raised e s) = s"

fun raised :: "'s outcome \<Rightarrow> error option" where
  "raised (Done s) = None"
| "raised (Raised e s) = Some e"

text \<open>
  Lines 207-210: \<^verbatim>\<open>zip\<close> pairs the student's tensors with the teacher's; each paired
  teacher tensor is overwritten in place by \<^verbatim>\<open>copy_\<close>, an unpaired one is left as it is.
  The products and the sum are floats (taken exactly, as everywhere), also for an int64
  buffer.
\<close>

fun ema_params :: "real \<Rightarrow> real list \<Rightarrow> real list \<Rightarrow> real list" where
  "ema_params r (param # ps) (param_ema # es) =
     (param_ema * r + param * (1 - r)) # ema_params r ps es"
| "ema_params r _ es = es"

fun ema_buffers :: "real \<Rightarrow> buffer list \<Rightarrow> buffer list \<Rightarrow> buffer list" where
  "ema_buffers r (buf # bs) (buffer_ema # es) =
     copy_into buffer_ema (buf_real buffer_ema * r + buf_real buf * (1 - r)) # ema_buffers r bs es"
| "ema_buffers r _ es = es"

text \<open>
  Lines 170-223, the body of the batch loop. The batch is the pair that \<^verbatim>\<open>zip\<close> yields:
  \<open>(img_x, mask_x)\<close> and \<open>(img_u_w, img_u_s, ignore_mask)\<close>. \<open>criterion_l\<close> is the supervised
  loss module, \<open>optimizer_step\<close> is AdamW's update of the student's parameters and of its
  own moment estimates from the gradient of the loss it is given, \<open>len_u\<close> is
  \<^verbatim>\<open>len(trainloader_u)\<close>, and \<open>epoch\<close> and \<open>i\<close> are the loop variables of lines 147 and 170.
  In order:
  \<^item> lines 175-186, the forward passes and the unsupervised loss, where line 181 reads the
    name \<open>img_u_s1\<close>;
  \<^item> lines 187-190, the consistency weight, the combined loss and the iteration counter;
  \<^item> lines 191-194: anomaly detection is switched on, so \<^verbatim>\<open>loss.backward()\<close> raises
    \<^verbatim>\<open>RuntimeError\<close> when a gradient is NaN, as it is for a NaN loss; then the optimizer
    steps;
  \<^item> line 199, the mask ratio, a number divided by a tensor;
  \<^item> lines 202-204, with \<open>total_iters\<close> of line 126; the loops give \<open>iters < total_iters\<close>,
    so the base of the power is positive;
  \<^item> lines 205-210, the teacher update;
  \<^item> lines 212-223, the scalars written on rank 0, and line 221's remainder by
    \<^verbatim>\<open>len(trainloader_u) // 3\<close>.
\<close>

definition train_iteration ::
  "config \<Rightarrow> cli_args \<Rightarrow> 'l torch_fns \<Rightarrow> ('l \<Rightarrow> int list \<Rightarrow> real) \<Rightarrow>
   (npfloat \<Rightarrow> real \<Rightarrow> real list \<Rightarrow> real list \<Rightarrow> real list \<times> real list) \<Rightarrow>
   nat \<Rightarrow> nat \<Rightarrow> int \<Rightarrow> int \<Rightarrow> nat \<Rightarrow>
   (real list \<times> int list) \<times> (real list \<times> real list \<times> int list) \<Rightarrow>
   train_state \<Rightarrow> train_state outcome" where
  "train_iteration cfg args fns criterion_l optimizer_step rank len_u epochs epoch i batch st =
     (case batch of ((img_x, mask_x), (img_u_w, img_u_s, ignore_mask)) \<Rightarrow>
      (let scope = image_scope img_x img_u_w img_u_s in
       case forward (model_ema fns) scope ''img_u_w'' of Inl e \<Rightarrow> Raised e st | Inr pred_u_w \<Rightarrow>
       case forward (model fns) scope ''img_x'' of Inl e \<Rightarrow> Raised e st | Inr pred_x \<Rightarrow>
       case unsupervised_loss fns cfg scope ignore_mask of Inl e \<Rightarrow> Raised e st | Inr loss_u_s \<Rightarrow>
       (let conf_u_w = softmax_max fns pred_u_w;
            loss_x = Fin (criterion_l pred_x mask_x);
            consistency_weight =
              get_current_consistency_weight args (real_of_int (iter_num st div 200));
            loss = combined_loss loss_x loss_u_s;
            st1 = st\<lparr>iter_num := iter_num st + 1\<rparr>
        in if loss = NaN then Raised RuntimeError st1
           else
            (let stepped = optimizer_step loss (opt_lr st1) (opt_moments st1) (student_params st1);
                 st2 = st1\<lparr>student_params := fst stepped, opt_moments := snd stepped\<rparr>;
                 gate = map2 (\<lambda>c g. conf_thresh cfg \<le> c \<and> g \<noteq> 255) conf_u_w ignore_mask;
                 mask_ratio =
                   fl_div (Fin (real (length (filter (\<lambda>b. b) gate))))
                          (Fin (real (length (filter (\<lambda>g. g \<noteq> 255) ignore_mask))));
                 iters = epoch * int len_u + int i;
                 total_iters = int len_u * epochs
             in if total_iters = 0 then Raised ZeroDivisionError st2
                else
                 (let lr = cfg_lr cfg *
                           (1 - real_of_int iters / real_of_int total_iters) powr 0.9;
                      st3 = st2\<lparr>opt_lr := lr\<rparr>
                  in if iters + 1 = 0 then Raised ZeroDivisionError st3
                     else
                      (let ema_ratio = min (1 - 1 / real_of_int (iters + 1)) 0.996;
                           st4 = st3\<lparr>teacher_params :=
                                      ema_params ema_ratio (student_params st3) (teacher_params st3),
                                    teacher_buffers :=
                                      ema_buffers ema_ratio (student_buffers st3) (teacher_buffers st3)\<rparr>
                       in if rank = 0
                          then
                           (let st5 = st4\<lparr>scalars := scalars st4 @
                                  [(''consistency_weight/consistency_weight'',
                                    Fin consistency_weight, iter_num st4),
                                   (''train/loss_all'', loss, iters),
                                   (''train/lr'', Fin lr, iters),
                                   (''train/loss_x'', loss_x, iters),
                                   (''train/loss_s'', loss_u_s, iters),
                                   (''train/mask_ratio'', mask_ratio, iters)]\<rparr>
                            in if len_u div 3 = 0 then Raised ZeroDivisionError st5
                               else Done st5)
                          else Done st4))))))"

text \<open>
  Lines 167-171: the batch loop of one epoch over \<^verbatim>\<open>enumerate(zip(trainloader_l,
  trainloader_u))\<close>; it ends at the first exception.
\<close>

fun train_batches ::
  "(nat \<Rightarrow> 'b \<Rightarrow> train_state \<Rightarrow> train_state outcome) \<Rightarrow> nat \<Rightarrow> 'b list \<Rightarrow> train_state \<Rightarrow>
   train_state outcome" where
  "train_batches body i [] st = Done st"
| "train_batches body i (batch # rest) st =
     (case body i batch st of
        Raised e st' \<Rightarrow> Raised e st'
      | Done st' \<Rightarrow> train_batches body (Suc i) rest st')"

text \<open>
  Lines 147-223 for one value of the loop variable \<open>epoch\<close>: the two loaders are the lists
  of the batches they yield in that epoch, and \<^verbatim>\<open>len(trainloader_u)\<close> is the length of the
  second.
\<close>

definition run_epoch ::
  "config \<Rightarrow> cli_args \<Rightarrow> 'l torch_fns \<Rightarrow> ('l \<Rightarrow> int list \<Rightarrow> real) \<Rightarrow>
   (npfloat \<Rightarrow> real \<Rightarrow> real list \<Rightarrow> real list \<Rightarrow> real list \<times> real list) \<Rightarrow>
   nat \<Rightarrow> int \<Rightarrow> int \<Rightarrow> (real list \<times> int list) list \<Rightarrow>
   (real list \<times> real list \<times> int list) list \<Rightarrow> train_state \<Rightarrow> train_state outcome" where
  "run_epoch cfg args fns criterion_l optimizer_step rank epochs epoch trainloader_l trainloader_u st =
     train_batches
       (train_iteration cfg args fns criterion_l optimizer_step rank (length trainloader_u)
          epochs epoch)
       0 (zip trainloader_l trainloader_u) (st\<lparr>cur_epoch := epoch\<rparr>)"

text \<open>
  The payload of lines 263-273, as \<^verbatim>\<open>latest.pth\<close> holds it: a model's state is its
  parameters and buffers, the optimizer's its learning rate and moment estimates.
\<close>

record checkpoint =
  ck_model :: "real list \<times> buffer list"
  ck_model_ema :: "real list \<times> buffer list"
  ck_optimizer :: "real \<times> real list"
  ck_epoch :: int
  ck_previous_best_1 :: real
  ck_previous_best_2 :: real
  ck_best_epoch :: int
  ck_best_epoch_ema :: int
  ck_iter_num :: int

text \<open>
  What \<^verbatim>\<open>latest.pth\<close> is on process start: no such path, a file \<^verbatim>\<open>torch.load\<close> cannot
  read, or a stored payload.
\<close>

datatype latest_file = Absent | Unreadable | Stored checkpoint

text \<open>
  Lines 27-41 and 54: the namespace that \<^verbatim>\<open>parse_args\<close> returns has one attribute for
  each option the parser defines, and no other; reading another attribute raises
  \<^verbatim>\<open>AttributeError\<close>.
\<close>

definition parser_options :: "string list" where
  "parser_options =
     [''config'', ''base_dir'', ''save_path'', ''log_file'', ''exp'', ''checkpoint_path'',
      ''val_patch_size'', ''val_xy'', ''val_z'', ''local_rank'', ''port'', ''num'',
      ''consistency_rampup'', ''consistency'']"

definition parse_args :: "(string \<Rightarrow> string) \<Rightarrow> (string \<rightharpoonup> string)" where
  "parse_args given = (\<lambda>name. if name \<in> set parser_options then Some (given name) else None)"

definition getattr :: "(string \<rightharpoonup> string) \<Rightarrow> string \<Rightarrow> error + string" where
  "getattr namespace name =
     (case namespace name of None \<Rightarrow> Inl AttributeError | Some v \<Rightarrow> Inr v)"

text \<open>
  Lines 129-132: the loop variables before the checkpoint is looked for, with the models
  and the optimizer of lines 80-97.
\<close>

definition fresh_state ::
  "real list \<times> buffer list \<Rightarrow> real list \<times> buffer list \<Rightarrow> real \<times> real list \<Rightarrow> train_state" where
  "fresh_state student teacher optimizer =
     \<lparr>student_params = fst student, student_buffers = snd student,
      teacher_params = fst teacher, teacher_buffers = snd teacher,
      opt_lr = fst optimizer, opt_moments = snd optimizer,
      cur_epoch = - 1, iter_num = 0,
      pre_best_dice1 = 0.78, pre_best_dice2 = 0.78,
      best_epoch_1 = 0, best_epoch_2 = 0, scalars = []\<rparr>"

text \<open>
  Lines 54-143, \<^verbatim>\<open>main\<close> up to the epoch loop. \<open>given\<close> holds the command line's option
  values, \<open>student\<close> the initialised network of lines 80-86, \<open>load_teacher\<close> what
  \<^verbatim>\<open>torch.load(...)['model1']\<close> reads from a path, \<open>criterion_name\<close> is
  \<^verbatim>\<open>cfg['criterion']['name']\<close> and \<open>moments\<close> the optimizer's initial moment estimates.
  In order:
  \<^item> line 89 reads \<^verbatim>\<open>args.teacher_ckpt\<close> and loads the teacher from it;
  \<^item> lines 95-97 build the optimizer with \<^verbatim>\<open>cfg['lr']\<close>;
  \<^item> lines 99-104 raise \<^verbatim>\<open>NotImplementedError\<close> for a criterion other than
    \<^verbatim>\<open>CELoss\<close> and \<^verbatim>\<open>OHEM\<close>;
  \<^item> lines 129-143 restore the state from \<^verbatim>\<open>latest.pth\<close> when that path exists.
  The calls into the file system and the process group are taken to succeed.
\<close>

definition startup ::
  "config \<Rightarrow> (string \<Rightarrow> string) \<Rightarrow> (string \<Rightarrow> real list \<times> buffer list) \<Rightarrow> string \<Rightarrow>
   latest_file \<Rightarrow> real list \<times> buffer list \<Rightarrow> real list \<Rightarrow> error + train_state" where
  "startup cfg given load_teacher criterion_name latest student moments =
     (let args = parse_args given in
      case getattr args ''teacher_ckpt'' of
        Inl e \<Rightarrow> Inl e
      | Inr teacher_ckpt \<Rightarrow>
         (if criterion_name \<noteq> ''CELoss'' \<and> criterion_name \<noteq> ''OHEM''
          then Inl NotImplementedError
          else
           (let st = fresh_state student (load_teacher teacher_ckpt) (cfg_lr cfg, moments) in
            case latest of
              Absent \<Rightarrow> Inr st
            | Unreadable \<Rightarrow> Inl UnpicklingError
            | Stored ck \<Rightarrow>
                Inr (st\<lparr>student_params := fst (ck_model ck),
                        student_buffers := snd (ck_model ck),
                        teacher_params := fst (ck_model_ema ck),
                        teacher_buffers := snd (ck_model_ema ck),
                        opt_lr := fst (ck_optimizer ck),
                        opt_moments := snd (ck_optimizer ck),
                        cur_epoch := ck_epoch ck,
                        pre_best_dice1 := ck_previous_best_1 ck,
                        pre_best_dice2 := ck_previous_best_2 ck,
                        best_epoch_1 := ck_best_epoch ck,
                        best_epoch_2 := ck_best_epoch_ema ck,
                        iter_num := ck_iter_num ck\<rparr>))))"

text \<open>Reading one voxel of what \<^verbatim>\<open>test_single_case\<close> returns.\<close>

definition result_label :: "error + (nat ndarray3 \<times> scores4) \<Rightarrow> idx3 \<Rightarrow> error + nat" where
  "result_label res v = (case res of Inl e \<Rightarrow> Inl e | Inr (lm, sm) \<Rightarrow> Inr (elems lm v))"

definition result_score :: "error + (nat ndarray3 \<times> scores4) \<Rightarrow> nat \<Rightarrow> idx3 \<Rightarrow> error + npfloat" where
  "result_score res c v = (case res of Inl e \<Rightarrow> Inl e | Inr (lm, sm) \<Rightarrow> Inr (selems sm c v))"

text \<open>Inputs of the worked examples.\<close>

definition uniform_net :: "int \<Rightarrow> real ndarray3 \<Rightarrow> nat \<Rightarrow> idx3 \<Rightarrow> real" where
  "uniform_net jisoo patch c v = 1 / 2"

definition zero_volume :: "idx3 \<Rightarrow> real ndarray3" where
  "zero_volume shp = \<lparr>shape = shp, elems = (\<lambda>v. 0)\<rparr>"

section \<open>The patch tiling\<close>

lemma ceil_div_bounds:
  fixes a s :: int
  assumes "0 < s"
  shows "a \<le> s * (- ((- a) div s)) \<and> s * (- ((- a) div s) - 1) < a"
proof -
  define q where "q = (- a) div s"
  define r where "r = (- a) mod s"
  have e: "s * q + r = - a" unfolding q_def r_def by (rule mult_div_mod_eq)
  have r: "0 \<le> r" "r < s" using assms by (simp_all add: r_def)
  have m1: "s * (- q) = - (s * q)" by simp
  have m2: "s * (- q - 1) = - (s * q) - s" by (simp add: algebra_simps)
  show ?thesis unfolding q_def[symmetric] m1 m2 using e r by linarith
qed

lemma ceil_div_nonneg:
  fixes a s :: int
  assumes "0 < s" "0 \<le> a"
  shows "0 \<le> - ((- a) div s)"
proof -
  have "(- a) div s \<le> 0" using assms
    by (metis div_le_mono div_0 neg_le_0_iff_le order_less_imp_le zdiv_mono1)
  then show ?thesis by simp
qed

lemma axis_offsets_Inr:
  assumes "stride \<noteq> 0"
  shows "axis_offsets stride n p =
     Inr (map (\<lambda>x. min (stride * x) (n - p)) [0..\<lceil>real_of_int (n - p) / real_of_int stride\<rceil>])"
  using assms by (simp add: axis_offsets_def py_ceil_div_def py_range_def)

lemma steps_bounds:
  assumes "0 < s" "p \<le> n"
  shows "0 \<le> \<lceil>real_of_int (n - p) / real_of_int s\<rceil>"
    and "n - p \<le> s * \<lceil>real_of_int (n - p) / real_of_int s\<rceil>"
    and "s * (\<lceil>real_of_int (n - p) / real_of_int s\<rceil> - 1) < n - p"
proof -
  have ceq: "\<lceil>real_of_int (n - p) / real_of_int s\<rceil> = - ((- (n - p)) div s)"
    by (rule ceiling_divide_eq_div)
  have np: "0 \<le> n - p" using assms(2) by simp
  show "0 \<le> \<lceil>real_of_int (n - p) / real_of_int s\<rceil>"
    unfolding ceq by (rule ceil_div_nonneg[OF assms(1) np])
  show "n - p \<le> s * \<lceil>real_of_int (n - p) / real_of_int s\<rceil>"
    unfolding ceq using ceil_div_bounds[OF assms(1), of "n - p"] by blast
  show "s * (\<lceil>real_of_int (n - p) / real_of_int s\<rceil> - 1) < n - p"
    unfolding ceq using ceil_div_bounds[OF assms(1), of "n - p"] by blast
qed

lemma axis_cover:
  fixes s p n i :: int
  assumes "0 < s" "s \<le> p" "p \<le> n" "0 \<le> i" "i < n"
  shows "\<exists>x. 0 \<le> x \<and> x \<le> \<lceil>real_of_int (n - p) / real_of_int s\<rceil>
            \<and> min (s * x) (n - p) \<le> i \<and> i < min (s * x) (n - p) + p"
proof -
  let ?c = "\<lceil>real_of_int (n - p) / real_of_int s\<rceil>"
  note b = steps_bounds[OF assms(1) assms(3)]
  show ?thesis
  proof (cases "n - p \<le> i")
    case True
    have "min (s * ?c) (n - p) = n - p" using b(2) by simp
    then show ?thesis using True assms b(1) by (intro exI[of _ ?c]) simp
  next
    case False
    define x where "x = i div s"
    have e: "s * x + i mod s = i" unfolding x_def by (rule mult_div_mod_eq)
    have r: "0 \<le> i mod s" "i mod s < s" using assms(1) by simp_all
    have x0: "0 \<le> x" unfolding x_def using assms(1,4) by (simp add: pos_imp_zdiv_nonneg_iff)
    have lt: "s * x < n - p" using e r False by linarith
    have "x < ?c"
    proof (rule ccontr)
      assume "\<not> x < ?c"
      then have "?c \<le> x" by simp
      then have "s * ?c \<le> s * x" using assms(1) by (simp add: mult_left_mono)
      then show False using b(2) lt by linarith
    qed
    moreover have "min (s * x) (n - p) = s * x" using lt by simp
    moreover have "s * x \<le> i" "i < s * x + p" using e r assms(2) by linarith+
    ultimately show ?thesis using x0 by (intro exI[of _ x]) simp
  qed
qed


lemma axis_offsets_set:
  assumes "stride \<noteq> 0" "axis_offsets stride n p = Inr offs"
  shows "set offs = (\<lambda>x. min (stride * x) (n - p)) ` {0..\<lceil>real_of_int (n - p) / real_of_int stride\<rceil>}"
  using assms(2) unfolding axis_offsets_Inr[OF assms(1)] by auto

lemma axis_offsets_length:
  assumes "0 < stride" "p \<le> n" "axis_offsets stride n p = Inr offs"
  shows "int (length offs) = \<lceil>real_of_int (n - p) / real_of_int stride\<rceil> + 1"
proof -
  have "stride \<noteq> 0" using assms(1) by simp
  from assms(3)[unfolded axis_offsets_Inr[OF this]]
  have "length offs = nat (\<lceil>real_of_int (n - p) / real_of_int stride\<rceil> + 1)" by auto
  then show ?thesis using steps_bounds(1)[OF assms(1,2)] by simp
qed

lemma axis_offsets_last:
  assumes "0 < stride" "p \<le> n" "axis_offsets stride n p = Inr offs"
  shows "offs \<noteq> [] \<and> last offs = n - p"
proof -
  let ?c = "\<lceil>real_of_int (n - p) / real_of_int stride\<rceil>"
  have nz: "stride \<noteq> 0" using assms(1) by simp
  note b = steps_bounds[OF assms(1,2)]
  have ne: "[0..?c] \<noteq> []" using b(1) by simp
  have l: "last [0..?c] = ?c" using b(1) by (simp add: upto_rec2)
  have offs: "offs = map (\<lambda>x. min (stride * x) (n - p)) [0..?c]"
    using assms(3)[unfolded axis_offsets_Inr[OF nz]] by simp
  have "last offs = min (stride * ?c) (n - p)" unfolding offs using ne l by (simp add: last_map)
  then show ?thesis using b(2) ne offs by simp
qed

lemma axis_offsets_range:
  assumes "0 < stride" "p \<le> n" "axis_offsets stride n p = Inr offs" "off \<in> set offs"
  shows "0 \<le> off \<and> off \<le> n - p"
proof -
  have nz: "stride \<noteq> 0" using assms(1) by simp
  from assms(4) obtain x where "0 \<le> x" "off = min (stride * x) (n - p)"
    unfolding axis_offsets_set[OF nz assms(3)] by auto
  then show ?thesis using assms(1,2) by (simp add: min_def)
qed

lemma axis_offsets_distinct:
  assumes "0 < stride" "p \<le> n" "axis_offsets stride n p = Inr offs"
  shows "distinct offs"
proof -
  let ?c = "\<lceil>real_of_int (n - p) / real_of_int stride\<rceil>"
  have nz: "stride \<noteq> 0" using assms(1) by simp
  note b = steps_bounds[OF assms(1,2)]
  have offs: "offs = map (\<lambda>x. min (stride * x) (n - p)) [0..?c]"
    using assms(3)[unfolded axis_offsets_Inr[OF nz]] by simp
  have "inj_on (\<lambda>x. min (stride * x) (n - p)) (set [0..?c])"
  proof (rule inj_onI)
    fix x y assume xy: "x \<in> set [0..?c]" "y \<in> set [0..?c]"
      and eq: "min (stride * x) (n - p) = min (stride * y) (n - p)"
    have small: "stride * z < n - p" if "z < ?c" for z
    proof -
      have "z \<le> ?c - 1" using that by simp
      then have "stride * z \<le> stride * (?c - 1)" using assms(1) by (simp add: mult_left_mono)
      then show ?thesis using b(3) by linarith
    qed
    show "x = y"
    proof (rule ccontr)
      assume ne: "x \<noteq> y"
      have aux: False if lt: "u < v" and v: "v \<le> ?c"
        and e: "min (stride * u) (n - p) = min (stride * v) (n - p)" for u v
      proof -
        have "u < ?c" using lt v by simp
        then have s: "stride * u < n - p" by (rule small)
        have "stride * u < stride * v" using lt assms(1) by simp
        then show False using s e by (simp add: min_def split: if_splits)
      qed
      show False
      proof (cases "x < y")
        case True then show ?thesis using aux[of x y] xy eq by simp
      next
        case False then have "y < x" using ne by simp
        then show ?thesis using aux[of y x] xy eq by simp
      qed
    qed
  qed
  then show ?thesis unfolding offs by (simp add: distinct_map)
qed


lemma cnt_accumulate:
  "cnt (accumulate net jisoo img psz acc off) v =
     cnt acc v + (if in_patch (shape img) psz off v then 1 else 0)"
  by (simp add: accumulate_def Let_def split: prod.splits)

lemma cnt_foldl:
  "cnt (foldl (accumulate net jisoo img psz) acc offs) v =
     cnt acc v + length (filter (\<lambda>off. in_patch (shape img) psz off v) offs)"
  by (induction offs arbitrary: acc) (simp_all add: cnt_accumulate)

lemma score_accumulate:
  "score_map (accumulate net jisoo img psz acc off) c v =
     (if in_patch (shape img) psz off v
      then score_map acc c v + net jisoo (slice3 img (fst off, fst off + fst psz)
             (fst (snd off), fst (snd off) + fst (snd psz)) (snd (snd off), snd (snd off) + snd (snd psz))) c
             (rel_idx v (patch_origin (shape img) off))
      else score_map acc c v)"
  by (simp add: accumulate_def Let_def split: prod.splits)

lemma unvisited_score_foldl:
  assumes "cnt acc v = 0 \<longrightarrow> score_map acc c v = 0"
  shows "cnt (foldl (accumulate net jisoo img psz) acc offs) v = 0 \<longrightarrow>
         score_map (foldl (accumulate net jisoo img psz) acc offs) c v = 0"
  using assms
proof (induction offs arbitrary: acc)
  case Nil then show ?case by simp
next
  case (Cons off offs)
  show ?case unfolding foldl_Cons
    by (rule Cons.IH) (use Cons.prems in \<open>simp add: cnt_accumulate score_accumulate\<close>)
qed

lemma padded_shape:
  assumes "shape img = (w, h, d)"
  shows "shape (padded (pad_image img (p0, p1, p2))) = (max w p0, max h p1, max d p2)"
  using assms by (auto simp: pad_image_def pad_widths_def np_pad_def Let_def)

lemma in_slice_window:
  assumes "0 \<le> off" "0 \<le> p" "off + p \<le> n"
  shows "in_slice n off (off + p) i \<longleftrightarrow> off \<le> i \<and> i < off + p"
  using assms by (auto simp: in_slice_def slice_bound_def)

lemma set_patch_list:
  "set [(x, y, z). x \<leftarrow> xo, y \<leftarrow> yo, z \<leftarrow> zo] = set xo \<times> set yo \<times> set zo"
  by auto


lemma patch_offsets_Inr:
  assumes "axis_offsets stride_z ww p0 = Inr xo" "axis_offsets stride_xy hh p1 = Inr yo"
    "axis_offsets stride_xy dd p2 = Inr zo"
  shows "patch_offsets (ww, hh, dd) (p0, p1, p2) stride_xy stride_z =
           Inr [(xs, ys, zs). xs \<leftarrow> xo, ys \<leftarrow> yo, zs \<leftarrow> zo]"
  using assms by (simp add: patch_offsets_def)

lemma axis_offsets_cover:
  assumes "0 < s" "s \<le> p" "p \<le> n" "axis_offsets s n p = Inr offs" "0 \<le> i" "i < n"
  shows "\<exists>off \<in> set offs. in_slice n off (off + p) i"
proof -
  have nz: "s \<noteq> 0" using assms(1) by simp
  obtain x where x: "0 \<le> x" "x \<le> \<lceil>real_of_int (n - p) / real_of_int s\<rceil>"
    "min (s * x) (n - p) \<le> i" "i < min (s * x) (n - p) + p"
    using axis_cover[OF assms(1,2,3,5,6)] by blast
  let ?off = "min (s * x) (n - p)"
  have mem: "?off \<in> set offs" unfolding axis_offsets_set[OF nz assms(4)] using x(1,2) by simp
  have rng: "0 \<le> ?off \<and> ?off \<le> n - p" by (rule axis_offsets_range[OF assms(1,3,4) mem])
  have "in_slice n ?off (?off + p) i"
    using in_slice_window[of ?off p n i] rng assms(1,2) x(3,4) by simp
  then show ?thesis using mem by blast
qed

lemma visit_count_eq:
  assumes "patch_offsets (shape (padded (pad_image img psz))) psz stride_xy stride_z = Inr offs"
  shows "visit_count net jisoo img stride_xy stride_z psz v =
           Inr (length (filter (\<lambda>off. in_patch (shape (padded (pad_image img psz))) psz off v) offs))"
  using assms by (simp add: visit_count_def run_patches_def cnt_foldl zero_acc_def)

text \<open>
  C1, amended. For every volume, every patch shape and all strides with
  \<open>0 < stride \<le> patch extent\<close> on each axis (\<open>stride_z\<close> on the first, \<open>stride_xy\<close> on the
  second and third), the tiling of the padded volume emits on each axis exactly
  \<open>\<lceil>(padded_extent - patch_extent) / stride\<rceil> + 1\<close> pairwise different offsets, the last
  of them is \<open>padded_extent - patch_extent\<close>, and every voxel of the padded volume has a
  visit count of at least one at line 137.
\<close>

theorem patch_tiling_covers:
  assumes sh: "shape (padded (pad_image img (p0, p1, p2))) = (ww, hh, dd)"
    and sz: "0 < stride_z" "stride_z \<le> p0"
    and sxy: "0 < stride_xy" "stride_xy \<le> p1" "stride_xy \<le> p2"
  shows "\<exists>xoffs yoffs zoffs.
           patch_offsets (ww, hh, dd) (p0, p1, p2) stride_xy stride_z =
             Inr [(xs, ys, zs). xs \<leftarrow> xoffs, ys \<leftarrow> yoffs, zs \<leftarrow> zoffs]
         \<and> axis_offsets stride_z ww p0 = Inr xoffs
         \<and> axis_offsets stride_xy hh p1 = Inr yoffs
         \<and> axis_offsets stride_xy dd p2 = Inr zoffs
         \<and> distinct xoffs \<and> distinct yoffs \<and> distinct zoffs
         \<and> int (length xoffs) = \<lceil>real_of_int (ww - p0) / real_of_int stride_z\<rceil> + 1
         \<and> int (length yoffs) = \<lceil>real_of_int (hh - p1) / real_of_int stride_xy\<rceil> + 1
         \<and> int (length zoffs) = \<lceil>real_of_int (dd - p2) / real_of_int stride_xy\<rceil> + 1
         \<and> last xoffs = ww - p0 \<and> last yoffs = hh - p1 \<and> last zoffs = dd - p2
         \<and> (\<forall>i j k. 0 \<le> i \<and> i < ww \<and> 0 \<le> j \<and> j < hh \<and> 0 \<le> k \<and> k < dd \<longrightarrow>
               (\<exists>n\<ge>1. visit_count net jisoo img stride_xy stride_z (p0, p1, p2) (i, j, k) = Inr n))"
proof -
  obtain w h d where whd: "shape img = (w, h, d)" by (cases "shape img") auto
  have ext: "p0 \<le> ww" "p1 \<le> hh" "p2 \<le> dd"
    using sh unfolding padded_shape[OF whd] by auto
  have nz: "stride_z \<noteq> 0" "stride_xy \<noteq> 0" using sz sxy by auto
  obtain xo where xo: "axis_offsets stride_z ww p0 = Inr xo"
    using axis_offsets_Inr[OF nz(1)] by blast
  obtain yo where yo: "axis_offsets stride_xy hh p1 = Inr yo"
    using axis_offsets_Inr[OF nz(2)] by blast
  obtain zo where zo: "axis_offsets stride_xy dd p2 = Inr zo"
    using axis_offsets_Inr[OF nz(2)] by blast
  let ?offs = "[(xs, ys, zs). xs \<leftarrow> xo, ys \<leftarrow> yo, zs \<leftarrow> zo]"
  have po: "patch_offsets (ww, hh, dd) (p0, p1, p2) stride_xy stride_z = Inr ?offs"
    by (rule patch_offsets_Inr[OF xo yo zo])
  have cover: "\<exists>n\<ge>1. visit_count net jisoo img stride_xy stride_z (p0, p1, p2) (i, j, k) = Inr n"
    if v: "0 \<le> i \<and> i < ww \<and> 0 \<le> j \<and> j < hh \<and> 0 \<le> k \<and> k < dd" for i j k
  proof -
    obtain a where a: "a \<in> set xo" "in_slice ww a (a + p0) i"
      using axis_offsets_cover[OF sz(1,2) ext(1) xo, of i] v by blast
    obtain b where b: "b \<in> set yo" "in_slice hh b (b + p1) j"
      using axis_offsets_cover[OF sxy(1,2) ext(2) yo, of j] v by blast
    obtain c where c: "c \<in> set zo" "in_slice dd c (c + p2) k"
      using axis_offsets_cover[OF sxy(1,3) ext(3) zo, of k] v by blast
    have mem: "(a, b, c) \<in> set ?offs" unfolding set_patch_list using a(1) b(1) c(1) by simp
    have inp: "in_patch (ww, hh, dd) (p0, p1, p2) (a, b, c) (i, j, k)"
      using a(2) b(2) c(2) by (simp add: in_patch_def)
    have "filter (\<lambda>off. in_patch (ww, hh, dd) (p0, p1, p2) off (i, j, k)) ?offs \<noteq> []"
      using mem inp by (auto simp only: filter_empty_conv)
    then have "1 \<le> length (filter (\<lambda>off. in_patch (ww, hh, dd) (p0, p1, p2) off (i, j, k)) ?offs)"
      by (simp add: Suc_le_eq)
    moreover have "visit_count net jisoo img stride_xy stride_z (p0, p1, p2) (i, j, k) =
        Inr (length (filter (\<lambda>off. in_patch (ww, hh, dd) (p0, p1, p2) off (i, j, k)) ?offs))"
      using visit_count_eq[of img "(p0, p1, p2)" stride_xy stride_z ?offs] po sh by simp
    ultimately show ?thesis by blast
  qed
  show ?thesis
    using po xo yo zo cover
      axis_offsets_distinct[OF sz(1) ext(1) xo] axis_offsets_distinct[OF sxy(1) ext(2) yo]
      axis_offsets_distinct[OF sxy(1) ext(3) zo]
      axis_offsets_length[OF sz(1) ext(1) xo] axis_offsets_length[OF sxy(1) ext(2) yo]
      axis_offsets_length[OF sxy(1) ext(3) zo]
      axis_offsets_last[OF sz(1) ext(1) xo] axis_offsets_last[OF sxy(1) ext(2) yo]
      axis_offsets_last[OF sxy(1) ext(3) zo]
    by (intro exI[of _ xo] exI[of _ yo] exI[of _ zo]) blast
qed

lemmas eval_defs = visit_count_def run_patches_def patch_offsets_def axis_offsets_def
  py_ceil_div_def py_range_def upto.simps pad_image_def pad_widths_def np_pad_def
  zero_volume_def accumulate_def zero_acc_def in_patch_def in_slice_def slice_bound_def
  Let_def

text \<open>
  C1 as stated fails for a stride above the patch extent: a volume of shape (5, 1, 1)
  with patch shape (1, 1, 1) and \<open>stride_z = 2\<close> gets the first-axis offsets 0, 2, 4 and
  voxel (1, 0, 0) is never visited.
\<close>

theorem patch_tiling_gap:
  "visit_count uniform_net 1 (zero_volume (5, 1, 1)) 1 2 (1, 1, 1) (1, 0, 0) = Inr 0"
  by (simp add: eval_defs)


text \<open>C1, amended, at a volume of shape (3, 1, 1) with patch shape (2, 1, 1) and strides 1.\<close>

theorem patch_tiling_covers_witness:
  "(0::int) < 1 \<and> (1::int) \<le> 2
   \<and> (\<exists>n\<ge>1. visit_count uniform_net 1 (zero_volume (3, 1, 1)) 1 1 (2, 1, 1) (2, 0, 0) = Inr n)"
proof -
  have sh: "shape (padded (pad_image (zero_volume (3, 1, 1)) (2, 1, 1))) = (3, 1, 1)"
    by (simp add: pad_image_def pad_widths_def zero_volume_def)
  have "0 < (1::int)" "(1::int) \<le> 2" "(1::int) \<le> 1" by simp_all
  from patch_tiling_covers[OF sh this(1,2) this(1,3,3), of uniform_net 1]
  have "\<forall>i j k. 0 \<le> i \<and> i < 3 \<and> 0 \<le> j \<and> j < 1 \<and> 0 \<le> k \<and> k < 1 \<longrightarrow>
          (\<exists>n\<ge>1. visit_count uniform_net 1 (zero_volume (3, 1, 1)) 1 1 (2, 1, 1) (i, j, k) = Inr n)"
    by blast
  then show ?thesis by simp
qed

lemma axis_offsets_nonempty:
  assumes "0 < stride" "p \<le> n" "axis_offsets stride n p = Inr offs"
  shows "set offs \<noteq> {}"
  using axis_offsets_last[OF assms] by simp

text \<open>
  C10. The offsets of the emitted patches along the first axis are exactly the values
  \<open>min (stride_z * x) (ww - p0)\<close>, those along the second and third axis exactly the values
  \<open>min (stride_xy * y) (hh - p1)\<close> and \<open>min (stride_xy * z) (dd - p2)\<close>: \<open>stride_xy\<close> has no part
  in the first axis and \<open>stride_z\<close> none in the other two.
\<close>

theorem strides_per_axis:
  assumes "p0 \<le> ww" "p1 \<le> hh" "p2 \<le> dd" "0 < stride_z" "0 < stride_xy"
  shows "\<exists>offs. patch_offsets (ww, hh, dd) (p0, p1, p2) stride_xy stride_z = Inr offs
     \<and> fst ` set offs = (\<lambda>x. min (stride_z * x) (ww - p0)) `
                           {0..\<lceil>real_of_int (ww - p0) / real_of_int stride_z\<rceil>}
     \<and> (fst \<circ> snd) ` set offs = (\<lambda>y. min (stride_xy * y) (hh - p1)) `
                           {0..\<lceil>real_of_int (hh - p1) / real_of_int stride_xy\<rceil>}
     \<and> (snd \<circ> snd) ` set offs = (\<lambda>z. min (stride_xy * z) (dd - p2)) `
                           {0..\<lceil>real_of_int (dd - p2) / real_of_int stride_xy\<rceil>}"
proof -
  have nz: "stride_z \<noteq> 0" "stride_xy \<noteq> 0" using assms by auto
  obtain xo where xo: "axis_offsets stride_z ww p0 = Inr xo"
    using axis_offsets_Inr[OF nz(1)] by blast
  obtain yo where yo: "axis_offsets stride_xy hh p1 = Inr yo"
    using axis_offsets_Inr[OF nz(2)] by blast
  obtain zo where zo: "axis_offsets stride_xy dd p2 = Inr zo"
    using axis_offsets_Inr[OF nz(2)] by blast
  let ?offs = "[(xs, ys, zs). xs \<leftarrow> xo, ys \<leftarrow> yo, zs \<leftarrow> zo]"
  have po: "patch_offsets (ww, hh, dd) (p0, p1, p2) stride_xy stride_z = Inr ?offs"
    by (rule patch_offsets_Inr[OF xo yo zo])
  have ne: "set xo \<noteq> {}" "set yo \<noteq> {}" "set zo \<noteq> {}"
    using axis_offsets_nonempty[OF assms(4) assms(1) xo]
      axis_offsets_nonempty[OF assms(5) assms(2) yo]
      axis_offsets_nonempty[OF assms(5) assms(3) zo] by blast+
  have s: "set ?offs = set xo \<times> set yo \<times> set zo" by (rule set_patch_list)
  have f1: "fst ` set ?offs = set xo" unfolding s using ne by force
  have f2: "(fst \<circ> snd) ` set ?offs = set yo"
    unfolding s image_comp[symmetric] using ne by (simp add: snd_image_times fst_image_times)
  have f3: "(snd \<circ> snd) ` set ?offs = set zo"
    unfolding s image_comp[symmetric] using ne by (simp add: snd_image_times)
  show ?thesis
    using po f1 f2 f3 axis_offsets_set[OF nz(1) xo] axis_offsets_set[OF nz(2) yo]
      axis_offsets_set[OF nz(2) zo]
    by (intro exI[of _ ?offs]) (simp only: simp_thms)
qed

text \<open>C10 at shape (5, 3, 3), patch shape (1, 1, 1), \<open>stride_xy = 1\<close> and \<open>stride_z = 2\<close>.\<close>

theorem strides_per_axis_witness:
  "\<exists>offs. patch_offsets (5, 3, 3) (1, 1, 1) 1 2 = Inr offs
     \<and> fst ` set offs = (\<lambda>x. min (2 * x) (5 - 1)) ` {0..\<lceil>real_of_int (5 - 1) / real_of_int 2\<rceil>}
     \<and> (fst \<circ> snd) ` set offs = (\<lambda>y. min (1 * y) (3 - 1)) ` {0..\<lceil>real_of_int (3 - 1) / real_of_int 1\<rceil>}
     \<and> (snd \<circ> snd) ` set offs = (\<lambda>z. min (1 * z) (3 - 1)) ` {0..\<lceil>real_of_int (3 - 1) / real_of_int 1\<rceil>}"
  by (rule strides_per_axis) simp_all

section \<open>Normalization, labels and the crop\<close>

lemma run_patches_Inr:
  assumes "stride_xy \<noteq> 0" "stride_z \<noteq> 0"
  shows "\<exists>offs. patch_offsets (shape img) psz stride_xy stride_z = Inr offs
           \<and> run_patches net jisoo img stride_xy stride_z psz =
               Inr (foldl (accumulate net jisoo img psz) zero_acc offs)"
proof -
  obtain ww hh dd where s: "shape img = (ww, hh, dd)" by (cases "shape img") auto
  obtain p0 p1 p2 where p: "psz = (p0, p1, p2)" by (cases psz) auto
  obtain xo where xo: "axis_offsets stride_z ww p0 = Inr xo"
    using axis_offsets_Inr[OF assms(2)] by blast
  obtain yo where yo: "axis_offsets stride_xy hh p1 = Inr yo"
    using axis_offsets_Inr[OF assms(1)] by blast
  obtain zo where zo: "axis_offsets stride_xy dd p2 = Inr zo"
    using axis_offsets_Inr[OF assms(1)] by blast
  show ?thesis unfolding s p run_patches_def using patch_offsets_Inr[OF xo yo zo] by (simp add: s)
qed

lemma argmax_scan_bound:
  "mi < i \<Longrightarrow> argmax_scan mp mi i xs < i + length xs"
  by (induction mp mi i xs rule: argmax_scan.induct) (auto split: if_splits)

lemma np_argmax_bound:
  assumes "np_argmax xs = Inr l"
  shows "l < length xs"
  using assms argmax_scan_bound[of 0 1]
  by (auto simp: np_argmax_def split: list.splits)

lemma argmax_scan_nan: "argmax_scan NaN mi i xs = mi"
  by (cases xs) simp_all

lemma np_argmax_all_nan:
  assumes "0 < n"
  shows "np_argmax (map (\<lambda>c. NaN) [0..<n]) = Inr 0"
proof -
  have "[0..<n] = 0 # [1..<n]" using assms by (simp add: upt_conv_Cons)
  then have "map (\<lambda>c. NaN) [0..<n] = NaN # map (\<lambda>c. NaN) [1..<n]" by simp
  then show ?thesis by (simp only: np_argmax_def list.case argmax_scan_nan)
qed

lemma argmax_axis0_Inr:
  assumes "0 < num_classes"
  shows "\<exists>lab. argmax_axis0 num_classes sm = Inr lab \<and> (\<forall>v. lab v < num_classes)
           \<and> (\<forall>v. (\<forall>c. sm c v = NaN) \<longrightarrow> lab v = 0)"
proof -
  let ?lab = "\<lambda>v. case np_argmax (map (\<lambda>c. sm c v) [0..<num_classes]) of Inl e \<Rightarrow> 0 | Inr l \<Rightarrow> l"
  have a: "argmax_axis0 num_classes sm = Inr ?lab" using assms by (simp add: argmax_axis0_def)
  have b: "?lab v < num_classes" for v
    using np_argmax_bound[of "map (\<lambda>c. sm c v) [0..<num_classes]"] assms
    by (auto split: sum.splits)
  have c: "?lab v = 0" if "\<forall>c. sm c v = NaN" for v
    using that np_argmax_all_nan[OF assms] by simp
  show ?thesis using a b c by blast
qed

lemma unvisited_nan:
  assumes "run_patches net jisoo img stride_xy stride_z psz = Inr acc" "cnt acc v = 0"
  shows "normalize acc c v = NaN"
proof -
  from assms(1) obtain offs where acc: "acc = foldl (accumulate net jisoo img psz) zero_acc offs"
    by (auto simp: run_patches_def split: sum.splits)
  have "cnt zero_acc v = 0 \<longrightarrow> score_map zero_acc c v = 0" by (simp add: zero_acc_def)
  from unvisited_score_foldl[OF this] assms(2) have "score_map acc c v = 0"
    unfolding acc by blast
  then show ?thesis using assms(2) by (simp add: normalize_def)
qed

lemma crop_len:
  assumes "0 \<le> w"
  shows "slice_len (max w p) (fst (snd (pad_widths w p))) (fst (snd (pad_widths w p)) + w) = w"
  using assms by (auto simp: slice_len_def slice_bound_def pad_widths_def Let_def)

lemma pad_image_fields:
  assumes "shape img = (w, h, d)"
  shows "wl_pad (pad_image img (p0, p1, p2)) = fst (snd (pad_widths w p0))"
    and "hl_pad (pad_image img (p0, p1, p2)) = fst (snd (pad_widths h p1))"
    and "dl_pad (pad_image img (p0, p1, p2)) = fst (snd (pad_widths d p2))"
    and "add_pad (pad_image img (p0, p1, p2)) \<longleftrightarrow> w < p0 \<or> h < p1 \<or> d < p2"
  using assms by (auto simp: pad_image_def pad_widths_def Let_def)


lemma crop_start:
  assumes "0 \<le> w"
  shows "slice_bound (max w p) (fst (snd (pad_widths w p))) = fst (snd (pad_widths w p))"
  using assms by (auto simp: slice_bound_def pad_widths_def Let_def)

lemma no_pad_origin:
  assumes "shape img = (w, h, d)" "\<not> add_pad (pad_image img (p0, p1, p2))"
  shows "wl_pad (pad_image img (p0, p1, p2)) = 0 \<and> hl_pad (pad_image img (p0, p1, p2)) = 0
       \<and> dl_pad (pad_image img (p0, p1, p2)) = 0"
  using assms by (auto simp: pad_image_def pad_widths_def Let_def)

text \<open>
  C2, amended. For every volume, with nonzero strides and at least one class, the
  normalization of line 137 raises nothing and \<^verbatim>\<open>test_single_case\<close> returns a result,
  whatever the visit counts are: where a voxel of the padded volume has VisitCount = 0, the
  returned score map holds NaN (0 / 0) for every class and the returned label map holds 0
  at the voxel's place after the crop.
\<close>

theorem normalization_does_not_raise:
  assumes "shape img = (w, h, d)" "0 \<le> w" "0 \<le> h" "0 \<le> d"
    and "stride_xy \<noteq> 0" "stride_z \<noteq> 0" "0 < num_classes"
  shows "\<exists>lm sm. test_single_case net jisoo img stride_xy stride_z (p0, p1, p2) num_classes = Inr (lm, sm)
     \<and> (\<forall>i j k.
           visit_count net jisoo img stride_xy stride_z (p0, p1, p2)
             (wl_pad (pad_image img (p0, p1, p2)) + i, hl_pad (pad_image img (p0, p1, p2)) + j,
              dl_pad (pad_image img (p0, p1, p2)) + k) = Inr 0
           \<longrightarrow> elems lm (i, j, k) = 0 \<and> (\<forall>c. selems sm c (i, j, k) = NaN))"
proof -
  let ?pd = "pad_image img (p0, p1, p2)"
  let ?img = "padded ?pd"
  obtain acc where acc: "run_patches net jisoo ?img stride_xy stride_z (p0, p1, p2) = Inr acc"
    using run_patches_Inr[OF assms(5,6)] by blast
  obtain lab where lab: "argmax_axis0 num_classes (normalize acc) = Inr lab"
    "\<forall>v. (\<forall>c. normalize acc c v = NaN) \<longrightarrow> lab v = 0"
    using argmax_axis0_Inr[OF assms(7)] by blast
  have vc: "visit_count net jisoo img stride_xy stride_z (p0, p1, p2) v = Inr (cnt acc v)" for v
    using acc by (simp add: visit_count_def)
  have nan: "normalize acc c v = NaN" if "cnt acc v = 0" for v c
    by (rule unvisited_nan[OF acc that])
  have zero: "lab v = 0" if "cnt acc v = 0" for v
    using lab(2) nan[OF that] by blast
  note sh = padded_shape[OF assms(1), of p0 p1 p2]
  note f = pad_image_fields[OF assms(1), of p0 p1 p2]
  show ?thesis
  proof (cases "add_pad ?pd")
    case True
    have "test_single_case net jisoo img stride_xy stride_z (p0, p1, p2) num_classes =
        Inr (slice3 \<lparr>shape = shape ?img, elems = lab\<rparr> (wl_pad ?pd, wl_pad ?pd + w)
               (hl_pad ?pd, hl_pad ?pd + h) (dl_pad ?pd, dl_pad ?pd + d),
             slice4 \<lparr>num_cls = num_classes, sshape = shape ?img, selems = normalize acc\<rparr>
               (wl_pad ?pd, wl_pad ?pd + w) (hl_pad ?pd, hl_pad ?pd + h) (dl_pad ?pd, dl_pad ?pd + d))"
      using acc lab(1) True assms(1) by (simp add: test_single_case_def Let_def)
    then show ?thesis
      using nan zero crop_start[OF assms(2), of p0] crop_start[OF assms(3), of p1]
        crop_start[OF assms(4), of p2]
      by (simp add: slice3_def slice4_def sh f vc)
  next
    case False
    note o = no_pad_origin[OF assms(1) False]
    have "test_single_case net jisoo img stride_xy stride_z (p0, p1, p2) num_classes =
        Inr (\<lparr>shape = shape ?img, elems = lab\<rparr>,
             \<lparr>num_cls = num_classes, sshape = shape ?img, selems = normalize acc\<rparr>)"
      using acc lab(1) False assms(1) by (simp add: test_single_case_def Let_def)
    then show ?thesis using nan zero by (simp add: o vc)
  qed
qed

text \<open>
  C2, amended, at a volume of shape (5, 1, 1) with patch shape (1, 3, 1), \<open>stride_xy = 1\<close>,
  \<open>stride_z = 2\<close> and two classes: the second axis is padded by one voxel on each side, and
  the voxel (1, 0, 0) of the volume, (1, 1, 0) of the padded one, is not visited.
\<close>

theorem normalization_does_not_raise_witness:
  "\<exists>lm sm. test_single_case uniform_net 1 (zero_volume (5, 1, 1)) 1 2 (1, 3, 1) 2 = Inr (lm, sm)
     \<and> elems lm (1, 0, 0) = 0 \<and> selems sm 0 (1, 0, 0) = NaN \<and> selems sm 1 (1, 0, 0) = NaN"
proof -
  have h: "shape (zero_volume (5, 1, 1)) = (5, 1, 1)" "(0::int) \<le> 5" "(0::int) \<le> 1" "(0::int) \<le> 1"
    "(1::int) \<noteq> 0" "(2::int) \<noteq> 0" "0 < (2::nat)"
    by (simp_all add: zero_volume_def)
  have pads: "wl_pad (pad_image (zero_volume (5, 1, 1)) (1, 3, 1)) = 0"
    "hl_pad (pad_image (zero_volume (5, 1, 1)) (1, 3, 1)) = 1"
    "dl_pad (pad_image (zero_volume (5, 1, 1)) (1, 3, 1)) = 0"
    by (simp_all add: pad_image_def pad_widths_def zero_volume_def)
  have v: "visit_count uniform_net 1 (zero_volume (5, 1, 1)) 1 2 (1, 3, 1) (0 + 1, 1 + 0, 0 + 0) = Inr 0"
    by (simp add: eval_defs)
  from normalization_does_not_raise[OF h, of uniform_net 1 1 3 1]
  obtain lm sm where
    r: "test_single_case uniform_net 1 (zero_volume (5, 1, 1)) 1 2 (1, 3, 1) 2 = Inr (lm, sm)"
    and u: "\<forall>i j k.
           visit_count uniform_net 1 (zero_volume (5, 1, 1)) 1 2 (1, 3, 1)
             (wl_pad (pad_image (zero_volume (5, 1, 1)) (1, 3, 1)) + i,
              hl_pad (pad_image (zero_volume (5, 1, 1)) (1, 3, 1)) + j,
              dl_pad (pad_image (zero_volume (5, 1, 1)) (1, 3, 1)) + k) = Inr 0
           \<longrightarrow> elems lm (i, j, k) = 0 \<and> (\<forall>c. selems sm c (i, j, k) = NaN)"
    by blast
  have "elems lm (1, 0, 0) = 0 \<and> (\<forall>c. selems sm c (1, 0, 0) = NaN)"
    using u[rule_format, of 1 0 0] v unfolding pads by blast
  then show ?thesis using r by blast
qed

text \<open>
  C2 as stated fails: on that input voxel (1, 0, 0) has VisitCount = 0, and inference
  returns a score map holding NaN and a label map holding 0 there instead of raising.
\<close>

theorem unvisited_voxel_no_error:
  "visit_count uniform_net 1 (zero_volume (5, 1, 1)) 1 2 (1, 1, 1) (1, 0, 0) = Inr 0
   \<and> result_score (test_single_case uniform_net 1 (zero_volume (5, 1, 1)) 1 2 (1, 1, 1) 2) 0 (1, 0, 0) = Inr NaN
   \<and> result_label (test_single_case uniform_net 1 (zero_volume (5, 1, 1)) 1 2 (1, 1, 1) 2) (1, 0, 0) = Inr 0"
  by (simp add: eval_defs test_single_case_def result_score_def result_label_def normalize_def
      argmax_axis0_def np_argmax_all_nan)

text \<open>
  C8. For every input volume (also one smaller than the patch shape on some axes), with
  nonzero strides and at least one class, \<^verbatim>\<open>test_single_case\<close> returns a label map and
  a score map of exactly the volume's shape, and every label is below \<open>num_classes\<close>.
\<close>

theorem crop_restores_shape:
  assumes "shape img = (w, h, d)" "0 \<le> w" "0 \<le> h" "0 \<le> d"
    and "stride_xy \<noteq> 0" "stride_z \<noteq> 0" "0 < num_classes"
  shows "\<exists>lm sm. test_single_case net jisoo img stride_xy stride_z (p0, p1, p2) num_classes = Inr (lm, sm)
           \<and> shape lm = (w, h, d) \<and> sshape sm = (w, h, d) \<and> num_cls sm = num_classes
           \<and> (\<forall>v. elems lm v < num_classes)"
proof -
  let ?pd = "pad_image img (p0, p1, p2)"
  let ?img = "padded ?pd"
  obtain acc where acc: "run_patches net jisoo ?img stride_xy stride_z (p0, p1, p2) = Inr acc"
    using run_patches_Inr[OF assms(5,6)] by blast
  obtain lab where lab: "argmax_axis0 num_classes (normalize acc) = Inr lab"
    "\<forall>v. lab v < num_classes"
    using argmax_axis0_Inr[OF assms(7)] by blast
  note sh = padded_shape[OF assms(1), of p0 p1 p2]
  note f = pad_image_fields[OF assms(1), of p0 p1 p2]
  show ?thesis
  proof (cases "add_pad ?pd")
    case True
    have "test_single_case net jisoo img stride_xy stride_z (p0, p1, p2) num_classes =
        Inr (slice3 \<lparr>shape = shape ?img, elems = lab\<rparr> (wl_pad ?pd, wl_pad ?pd + w)
               (hl_pad ?pd, hl_pad ?pd + h) (dl_pad ?pd, dl_pad ?pd + d),
             slice4 \<lparr>num_cls = num_classes, sshape = shape ?img, selems = normalize acc\<rparr>
               (wl_pad ?pd, wl_pad ?pd + w) (hl_pad ?pd, hl_pad ?pd + h) (dl_pad ?pd, dl_pad ?pd + d))"
      using acc lab(1) True assms(1) by (simp add: test_single_case_def Let_def)
    then show ?thesis
      using lab(2) crop_len[OF assms(2), of p0] crop_len[OF assms(3), of p1] crop_len[OF assms(4), of p2]
      by (simp add: slice3_def slice4_def sh f split: prod.splits)
  next
    case False
    have eq: "?img = img" using False by (auto simp: pad_image_def Let_def split: prod.splits)
    have "test_single_case net jisoo img stride_xy stride_z (p0, p1, p2) num_classes =
        Inr (\<lparr>shape = shape ?img, elems = lab\<rparr>,
             \<lparr>num_cls = num_classes, sshape = shape ?img, selems = normalize acc\<rparr>)"
      using acc lab(1) False assms(1) by (simp add: test_single_case_def Let_def)
    then show ?thesis using lab(2) assms(1) unfolding eq by simp
  qed
qed

text \<open>
  C8 at a volume of shape (1, 3, 1) with patch shape (2, 2, 1): the first axis is padded,
  the second is not.
\<close>

theorem crop_restores_shape_witness:
  "\<exists>lm sm. test_single_case uniform_net 1 (zero_volume (1, 3, 1)) 1 1 (2, 2, 1) 2 = Inr (lm, sm)
     \<and> shape lm = (1, 3, 1) \<and> sshape sm = (1, 3, 1) \<and> num_cls sm = 2
     \<and> (\<forall>v. elems lm v < 2)"
  using crop_restores_shape[of "zero_volume (1, 3, 1)" 1 3 1 1 1 2 uniform_net 1 2 2 1]
  by (simp add: zero_volume_def)


section \<open>The unsupervised loss\<close>

text \<open>
  C3. The claim is right about the loss of lines 184-186, but line 181 passes the name
  \<open>img_u_s1\<close> to the student, which no line binds (the strong view is bound as \<open>img_u_s\<close>):
  on every batch the computation of the unsupervised loss raises \<^verbatim>\<open>NameError\<close> before
  any loss exists.
\<close>

theorem strong_view_name_unbound:
  "unsupervised_loss fns cfg (image_scope x u_w u_s) ignore_mask = Inl NameError"
  by (simp add: unsupervised_loss_def forward_def image_scope_def)

lemma sum_list_all_zero: "(\<forall>x \<in> set xs. x = (0::real)) \<Longrightarrow> sum_list xs = 0"
  by (induction xs) simp_all

text \<open>
  Lines 185-186 hold no guard for a batch whose voxels are all ignore-masked: the gated
  sum is 0, the divisor is 0, and the quotient of the tensor by the number is NaN, as is
  any combined loss of line 188 built on it.
\<close>

lemma masked_loss_all_ignored:
  assumes "\<forall>g \<in> set ignore_mask. g = 255"
  shows "masked_unsup_loss thresh loss_u_s conf_u_w ignore_mask = NaN
       \<and> combined_loss loss_x (masked_unsup_loss thresh loss_u_s conf_u_w ignore_mask) = NaN"
proof -
  let ?gate = "map2 (\<lambda>c g. thresh \<le> c \<and> g \<noteq> 255) conf_u_w ignore_mask"
  let ?gated = "map2 (\<lambda>l b. l * (if b then 1 else 0)) loss_u_s ?gate"
  have g: "\<forall>b \<in> set ?gate. \<not> b" using assms by (auto dest: set_zip_rightD)
  have "\<forall>x \<in> set ?gated. x = 0" using g by (auto dest: set_zip_rightD)
  then have s: "sum_list ?gated = 0" by (rule sum_list_all_zero)
  have f: "filter (\<lambda>g. g \<noteq> 255) ignore_mask = []" using assms by (simp add: filter_empty_conv)
  have m: "masked_unsup_loss thresh loss_u_s conf_u_w ignore_mask = NaN"
    unfolding masked_unsup_loss_def Let_def s f by simp
  show ?thesis unfolding m combined_loss_def by (cases loss_x) simp_all
qed

lemma gated_sum:
  assumes "length loss = length ign" "length conf = length ign"
  shows "sum_list (map2 (\<lambda>l b. l * (if b then 1 else 0)) loss
            (map2 (\<lambda>c g. thresh \<le> c \<and> g \<noteq> 255) conf ign)) =
         (\<Sum>k<length ign. if thresh \<le> conf ! k \<and> ign ! k \<noteq> (255::int) then loss ! k else (0::real))"
proof -
  let ?xs = "map2 (\<lambda>l b. l * (if b then 1 else 0)) loss
            (map2 (\<lambda>c g. thresh \<le> c \<and> g \<noteq> 255) conf ign)"
  have len: "length ?xs = length ign" using assms by simp
  have "sum_list ?xs = (\<Sum>k = 0..<length ?xs. ?xs ! k)" by (rule sum_list_sum_nth)
  also have "\<dots> = (\<Sum>k<length ign. ?xs ! k)" unfolding len by (simp add: atLeast0LessThan)
  also have "\<dots> = (\<Sum>k<length ign. if thresh \<le> conf ! k \<and> ign ! k \<noteq> 255 then loss ! k else 0)"
    using assms by (intro sum.cong) auto
  finally show ?thesis .
qed

text \<open>
  Lines 185-186 on tensors of one shape: the sum of the per-voxel loss over the voxels
  whose confidence reaches the threshold and whose ignore-mask entry is not 255, divided
  by the number of voxels whose ignore-mask entry is not 255.
\<close>

theorem masked_loss_formula:
  assumes "length loss = length ign" "length conf = length ign"
  shows "masked_unsup_loss thresh loss conf ign =
           fl_div (Fin (\<Sum>k<length ign. if thresh \<le> conf ! k \<and> ign ! k \<noteq> 255 then loss ! k else 0))
                  (Fin (real (card {k. k < length ign \<and> ign ! k \<noteq> 255})))"
  unfolding masked_unsup_loss_def Let_def gated_sum[OF assms]
  by (simp add: length_filter_conv_card)

text \<open>
  The same at three voxels: the first counts, the second is below the threshold, the
  third is ignore-masked; the divisor is 2.
\<close>

theorem masked_loss_formula_witness:
  "masked_unsup_loss (1 / 2) [3, 5, 7] [9 / 10, 1 / 10, 1] [0, 0, 255] = Fin (3 / 2)"
proof -
  have t: "masked_unsup_loss (1 / 2) [3, 5, 7] [9 / 10, 1 / 10, 1] [0, 0, 255] =
      fl_div (Fin (\<Sum>k<length [0, 0, 255::int].
                     if 1 / 2 \<le> [9 / 10, 1 / 10, 1::real] ! k \<and> [0, 0, 255::int] ! k \<noteq> 255
                     then [3, 5, 7::real] ! k else 0))
             (Fin (real (card {k. k < length [0, 0, 255::int] \<and> [0, 0, 255::int] ! k \<noteq> 255})))"
    by (rule masked_loss_formula) simp_all
  have c: "{k. k < length [0, 0, 255::int] \<and> [0, 0, 255::int] ! k \<noteq> 255} = {0, 1}"
    by (auto simp: nth_Cons' less_Suc_eq)
  have a: "(\<Sum>k<length [0, 0, 255::int].
              if 1 / 2 \<le> [9 / 10, 1 / 10, 1::real] ! k \<and> [0, 0, 255::int] ! k \<noteq> 255
              then [3, 5, 7::real] ! k else 0) = 3"
    by simp
  show ?thesis unfolding t c a by simp
qed

section \<open>The consistency ramp-up\<close>

text \<open>
  Lines 43-50: for \<open>current \<ge> 0\<close> the ramp-up is \<open>exp (- 5 * (1 - current / length)\<^sup>2)\<close>
  below the ramp-up length and 1 from there on (also for a length of 0 or below).
\<close>

theorem sigmoid_rampup_formula:
  assumes "0 \<le> t"
  shows "sigmoid_rampup t T = (if t < T then exp (- 5 * (1 - t / T)\<^sup>2) else 1)"
proof (cases "t < T")
  case True
  then have "np_clip t 0 T = t" using assms by (simp add: np_clip_def)
  then show ?thesis using True assms
    by (simp add: sigmoid_rampup_def Let_def power2_eq_square)
next
  case False
  then have c: "np_clip t 0 T = T" using assms by (simp add: np_clip_def)
  show ?thesis using False by (simp add: sigmoid_rampup_def Let_def c)
qed

text \<open>The same half-way through a ramp-up of length 200, and past its end.\<close>

theorem sigmoid_rampup_formula_witness:
  "sigmoid_rampup 100 200 = exp (- 5 / 4) \<and> sigmoid_rampup 300 200 = 1"
  using sigmoid_rampup_formula[of 100 200] sigmoid_rampup_formula[of 300 200]
  by (simp add: power2_eq_square)

section \<open>The batch loop\<close>

text \<open>
  Every run of the loop body leaves at line 181 with \<^verbatim>\<open>NameError\<close>, in the state it was
  entered with.
\<close>

lemma train_iteration_raises:
  "train_iteration cfg args fns criterion_l optimizer_step rank len_u epochs epoch i batch st =
     Raised NameError st"
  by (cases batch) (simp add: train_iteration_def unsupervised_loss_def forward_def image_scope_def)

text \<open>
  C4. The claim is right to ask for a loss of zero and no error on a batch whose voxels
  are all ignore-masked, but on such a batch (here of one voxel) the computation of the
  unsupervised loss raises \<^verbatim>\<open>NameError\<close> at line 181 and the iteration ends there: no
  unsupervised term and no combined loss exist.
\<close>

theorem all_ignored_batch_raises:
  "unsupervised_loss fns cfg (image_scope [0] [0] [0]) [255] = Inl NameError
   \<and> train_iteration cfg args fns criterion_l optimizer_step rank len_u epochs epoch i
        (([0], [0]), ([0], [0], [255])) st = Raised NameError st"
  by (simp add: train_iteration_def unsupervised_loss_def forward_def image_scope_def)

text \<open>
  C5. The claim is right about lines 187-194 and 213-214, but no iteration reaches them:
  the loop body leaves at line 181 with \<^verbatim>\<open>NameError\<close>, so no loss is backpropagated (the
  student's parameters are as before) and no scalar is written.
\<close>

theorem iteration_raises_before_loss:
  "train_iteration cfg args fns criterion_l optimizer_step rank len_u epochs epoch i
     ((img_x, mask_x), (img_u_w, img_u_s, ignore_mask)) st = Raised NameError st
   \<and> student_params (exit_state (train_iteration cfg args fns criterion_l optimizer_step rank
        len_u epochs epoch i ((img_x, mask_x), (img_u_w, img_u_s, ignore_mask)) st))
       = student_params st
   \<and> scalars (exit_state (train_iteration cfg args fns criterion_l optimizer_step rank
        len_u epochs epoch i ((img_x, mask_x), (img_u_w, img_u_s, ignore_mask)) st))
       = scalars st"
  by (simp add: train_iteration_def unsupervised_loss_def forward_def image_scope_def)

text \<open>
  C6. The claim is right about lines 205-210 for float tensors, but an epoch whose loaders
  yield a batch leaves at line 181 of its first iteration: the teacher's parameters and
  buffers are never updated.
\<close>

theorem epoch_never_updates_teacher:
  "run_epoch cfg args fns criterion_l optimizer_step rank epochs epoch
     (batch_l # rest_l) (batch_u # rest_u) st = Raised NameError (st\<lparr>cur_epoch := epoch\<rparr>)
   \<and> teacher_params (exit_state (run_epoch cfg args fns criterion_l optimizer_step rank epochs epoch
        (batch_l # rest_l) (batch_u # rest_u) st)) = teacher_params st
   \<and> teacher_buffers (exit_state (run_epoch cfg args fns criterion_l optimizer_step rank epochs epoch
        (batch_l # rest_l) (batch_u # rest_u) st)) = teacher_buffers st"
  by (simp add: run_epoch_def train_iteration_raises)

text \<open>
  Lines 209-210 on an int64 buffer: \<^verbatim>\<open>copy_\<close> truncates the average, so teacher 1 and
  student 2 at a ratio of 1 / 2 give 1.
\<close>

lemma long_buffer_truncated:
  "ema_buffers (1 / 2) [LongBuf 2] [LongBuf 1] = [LongBuf 1]"
  by (simp add: trunc_int_def)

text \<open>
  C7. The claim is right about lines 202-204, but no iteration reaches them: the loop
  body leaves at line 181 with \<^verbatim>\<open>NameError\<close> and the optimizer's learning rate is what
  it was.
\<close>

theorem iteration_never_sets_lr:
  "raised (train_iteration cfg args fns criterion_l optimizer_step rank len_u epochs epoch i batch st)
     = Some NameError
   \<and> opt_lr (exit_state
        (train_iteration cfg args fns criterion_l optimizer_step rank len_u epochs epoch i batch st))
     = opt_lr st"
  by (simp add: train_iteration_raises)

section \<open>Process start\<close>

text \<open>
  C9. The claim is right about lines 129-147, but no start of \<^verbatim>\<open>main\<close> reaches them:
  line 89 reads \<^verbatim>\<open>args.teacher_ckpt\<close>, an option the parser of lines 27-41 does not
  define, and raises \<^verbatim>\<open>AttributeError\<close> whether \<^verbatim>\<open>latest.pth\<close> exists or not.
\<close>

theorem startup_raises_attribute_error:
  "startup cfg given load_teacher criterion_name latest student moments = Inl AttributeError"
  by (simp add: startup_def parse_args_def getattr_def parser_options_def)

end
